theory Spec2Isabelle
  imports Complex_Main "HOL-Library.Sublist" "HOL-Library.Multiset"
begin

section \<open>JavaScript values\<close>

text \<open>
  The catalogue is JSON data handled by untyped code, so a place is modelled as the object
  the code sees: an association list from property names to values, read with the first
  match. Numbers are IEEE doubles in the engine; here a number is either \<open>NaN\<close> or a
  real, so arithmetic is exact and the two infinities (reachable only through an
  out-of-range literal such as \<open>1e999\<close>) are left out. Strings are lists of code units.
\<close>

datatype jsnum = NaN | Fin real

datatype jsval =
    JUndefined
  | JNull
  | JBool bool
  | JNum jsnum
  | JStr string
  | JArr "jsval list"
  | JObj "(string \<times> jsval) list"

type_synonym place = "(string \<times> jsval) list"

datatype error = TypeError | SyntaxError | SecurityError | OutOfModel

text \<open>
  Conversions between numbers and strings, the collation of strings, \<open>trim\<close> and
  \<open>toLowerCase\<close> belong to the engine, not to the repository; the functions below take
  them as a parameter. \<open>OutOfModel\<close> is no exception of the program: it marks an input
  the model of the engine's sort does not cover.
\<close>

record platform =
  numToString :: "real \<Rightarrow> string"
  stringToNumber :: "string \<Rightarrow> jsnum"
  localeCompare :: "string \<Rightarrow> string \<Rightarrow> int"
  trim :: "string \<Rightarrow> string"
  toLowerCase :: "string \<Rightarrow> string"

definition ebind :: "error + 'a \<Rightarrow> ('a \<Rightarrow> error + 'b) \<Rightarrow> error + 'b" where
  "ebind m f = (case m of Inl e \<Rightarrow> Inl e | Inr x \<Rightarrow> f x)"

text \<open>\<open>Boolean(v)\<close>: the falsy values are undefined, null, false, 0, NaN and the empty string.\<close>

fun truthy :: "jsval \<Rightarrow> bool" where
  "truthy JUndefined = False"
| "truthy JNull = False"
| "truthy (JBool b) = b"
| "truthy (JNum NaN) = False"
| "truthy (JNum (Fin r)) = (r \<noteq> 0)"
| "truthy (JStr s) = (s \<noteq> [])"
| "truthy (JArr xs) = True"
| "truthy (JObj fs) = True"

text \<open>\<open>a || b\<close>\<close>

definition js_or :: "jsval \<Rightarrow> jsval \<Rightarrow> jsval" where
  "js_or a b = (if truthy a then a else b)"

text \<open>\<open>p.k\<close> on an object: a missing property reads as undefined.\<close>

definition getp :: "place \<Rightarrow> string \<Rightarrow> jsval" where
  "getp p k = (case map_of p k of None \<Rightarrow> JUndefined | Some v \<Rightarrow> v)"

fun digit_char :: "nat \<Rightarrow> char" where
  "digit_char n = char_of (48 + n)"

fun show_nat :: "nat \<Rightarrow> string" where
  "show_nat n = (if n < 10 then [digit_char n] else show_nat (n div 10) @ [digit_char (n mod 10)])"

declare show_nat.simps [simp del]

fun join :: "string \<Rightarrow> string list \<Rightarrow> string" where
  "join sep [] = []"
| "join sep [x] = x"
| "join sep (x # y # ys) = x @ sep @ join sep (y # ys)"

text \<open>\<open>String(v)\<close>; an array joins its elements with commas, null and undefined as empty.\<close>

fun toString :: "platform \<Rightarrow> jsval \<Rightarrow> string" where
  "toString pf JUndefined = ''undefined''"
| "toString pf JNull = ''null''"
| "toString pf (JBool b) = (if b then ''true'' else ''false'')"
| "toString pf (JNum NaN) = ''NaN''"
| "toString pf (JNum (Fin r)) = numToString pf r"
| "toString pf (JStr s) = s"
| "toString pf (JArr xs) =
     join '','' (map (\<lambda>x. if x = JUndefined \<or> x = JNull then [] else toString pf x) xs)"
| "toString pf (JObj fs) = ''[object Object]''"

text \<open>\<open>Number(v)\<close>; a plain object converts through \<open>"[object Object]"\<close> to NaN.\<close>

fun toNumber :: "platform \<Rightarrow> jsval \<Rightarrow> jsnum" where
  "toNumber pf JUndefined = NaN"
| "toNumber pf JNull = Fin 0"
| "toNumber pf (JBool b) = Fin (if b then 1 else 0)"
| "toNumber pf (JNum n) = n"
| "toNumber pf (JStr s) = stringToNumber pf s"
| "toNumber pf (JArr xs) = stringToNumber pf (toString pf (JArr xs))"
| "toNumber pf (JObj fs) = NaN"

definition isFinite :: "jsnum \<Rightarrow> bool" where
  "isFinite n = (n \<noteq> NaN)"

definition num_gt :: "jsnum \<Rightarrow> jsnum \<Rightarrow> bool" where
  "num_gt a b = (case (a, b) of (Fin x, Fin y) \<Rightarrow> x > y | _ \<Rightarrow> False)"

definition num_lt :: "jsnum \<Rightarrow> jsnum \<Rightarrow> bool" where
  "num_lt a b = (case (a, b) of (Fin x, Fin y) \<Rightarrow> x < y | _ \<Rightarrow> False)"

definition num_sub :: "jsnum \<Rightarrow> jsnum \<Rightarrow> jsnum" where
  "num_sub a b = (case (a, b) of (Fin x, Fin y) \<Rightarrow> Fin (x - y) | _ \<Rightarrow> NaN)"

text \<open>\<open>a === b\<close> on numbers: NaN equals nothing.\<close>

definition num_strict_eq :: "jsnum \<Rightarrow> jsnum \<Rightarrow> bool" where
  "num_strict_eq a b = (a \<noteq> NaN \<and> a = b)"

section \<open>Merge stage\<close>

text \<open>
  \<open>edits?.[key]\<close>. The overlay is whatever \<open>loadEdits\<close> returned or \<open>saveEdit\<close> built:
  an object, or an array (whose own properties are its indices and \<open>length\<close>).
  Properties inherited from a prototype are functions, which add nothing when spread,
  and are not modelled.
\<close>

definition arr_prop :: "jsval list \<Rightarrow> string \<Rightarrow> jsval" where
  "arr_prop xs k =
     (case filter (\<lambda>i. show_nat i = k) [0..<length xs] of
        i # _ \<Rightarrow> xs ! i
      | [] \<Rightarrow> if k = ''length'' then JNum (Fin (real (length xs))) else JUndefined)"

definition member_opt :: "platform \<Rightarrow> jsval \<Rightarrow> jsval \<Rightarrow> jsval" where
  "member_opt pf obj key =
     (case obj of
        JObj fs \<Rightarrow> getp fs (toString pf key)
      | JArr xs \<Rightarrow> arr_prop xs (toString pf key)
      | JStr s \<Rightarrow> arr_prop (map (\<lambda>c. JStr [c]) s) (toString pf key)
      | _ \<Rightarrow> JUndefined)"

text \<open>The own enumerable properties that \<open>{...v}\<close> copies.\<close>

definition own_props :: "jsval \<Rightarrow> (string \<times> jsval) list" where
  "own_props v =
     (case v of
        JObj fs \<Rightarrow> fs
      | JArr xs \<Rightarrow> zip (map show_nat [0..<length xs]) xs
      | JStr s \<Rightarrow> zip (map show_nat [0..<length s]) (map (\<lambda>c. JStr [c]) s)
      | _ \<Rightarrow> [])"

text \<open>
  \<open>{ ...p, ...patch }\<close>: the properties of the patch in front of those of the place, so
  that reading a property finds the patch's value first.
\<close>

definition spread :: "place \<Rightarrow> jsval \<Rightarrow> place" where
  "spread p patch = own_props patch @ p"

definition merge_one :: "platform \<Rightarrow> jsval \<Rightarrow> place \<Rightarrow> place" where
  "merge_one pf edits p =
     (let patch = member_opt pf edits (getp p ''id'')
      in if truthy patch then spread p patch else p)"

definition places :: "platform \<Rightarrow> place list \<Rightarrow> jsval \<Rightarrow> place list" where
  "places pf basePlaces edits = map (merge_one pf edits) basePlaces"

text \<open>
  The copy under \<open>src/\<close> reads \<open>edits[p.id]\<close> without the optional chaining, which
  raises on a null or undefined overlay.
\<close>

definition member_src :: "platform \<Rightarrow> jsval \<Rightarrow> jsval \<Rightarrow> error + jsval" where
  "member_src pf obj key =
     (if obj = JUndefined \<or> obj = JNull then Inl TypeError else Inr (member_opt pf obj key))"

fun map_e :: "('a \<Rightarrow> error + 'b) \<Rightarrow> 'a list \<Rightarrow> error + 'b list" where
  "map_e f [] = Inr []"
| "map_e f (x # xs) = ebind (f x) (\<lambda>y. ebind (map_e f xs) (\<lambda>ys. Inr (y # ys)))"

definition merge_one_src :: "platform \<Rightarrow> jsval \<Rightarrow> place \<Rightarrow> error + place" where
  "merge_one_src pf edits p =
     ebind (member_src pf edits (getp p ''id''))
       (\<lambda>patch. Inr (if truthy patch then spread p patch else p))"

definition places_src :: "platform \<Rightarrow> place list \<Rightarrow> jsval \<Rightarrow> error + place list" where
  "places_src pf placesData edits = map_e (merge_one_src pf edits) placesData"

section \<open>Edit overlay store\<close>

text \<open>
  \<open>localStorage.getItem\<close> raises where storage is disabled, and otherwise returns null
  or the stored text. \<open>JSON.parse\<close> is the engine's: a parameter that gives the parsed
  value, or nothing where it raises a SyntaxError.
\<close>

datatype storage = Unavailable | Stored "string option"

fun typeof :: "jsval \<Rightarrow> string" where
  "typeof JUndefined = ''undefined''"
| "typeof JNull = ''object''"
| "typeof (JBool b) = ''boolean''"
| "typeof (JNum n) = ''number''"
| "typeof (JStr s) = ''string''"
| "typeof (JArr xs) = ''object''"
| "typeof (JObj fs) = ''object''"

text \<open>The body of the \<open>try\<close> block of \<open>loadEdits\<close>.\<close>

definition loadEdits_try :: "(string \<Rightarrow> jsval option) \<Rightarrow> storage \<Rightarrow> error + jsval" where
  "loadEdits_try parse st =
     (case st of
        Unavailable \<Rightarrow> Inl SecurityError
      | Stored None \<Rightarrow> Inr (JObj [])
      | Stored (Some raw) \<Rightarrow>
          if raw = [] then Inr (JObj [])
          else (case parse raw of
                  None \<Rightarrow> Inl SyntaxError
                | Some parsed \<Rightarrow>
                    Inr (if truthy parsed \<and> typeof parsed = ''object'' then parsed else JObj [])))"

definition loadEdits :: "(string \<Rightarrow> jsval option) \<Rightarrow> storage \<Rightarrow> jsval" where
  "loadEdits parse st = (case loadEdits_try parse st of Inl e \<Rightarrow> JObj [] | Inr v \<Rightarrow> v)"

section \<open>Query state and its URL encoding\<close>

record state =
  q :: string
  city :: string
  cuisine :: string
  neighborhood :: string
  tag :: string
  minRating :: jsnum
  price :: jsnum
  wouldReturn :: bool
  sortBy :: string

text \<open>
  \<open>URLSearchParams\<close> as the list of its name-value pairs. The query string of the
  location is taken to be this list: the browser's serialisation and parsing of it are
  not modelled.
\<close>

type_synonym params = "(string \<times> string) list"

definition sp_get :: "params \<Rightarrow> string \<Rightarrow> string option" where
  "sp_get sp name = map_of sp name"

fun sp_set :: "string \<Rightarrow> string \<Rightarrow> params \<Rightarrow> params" where
  "sp_set name v [] = [(name, v)]"
| "sp_set name v ((n, w) # sp) =
     (if n = name then (name, v) # filter (\<lambda>e. fst e \<noteq> name) sp else (n, w) # sp_set name v sp)"

text \<open>\<open>sp.get(name) ?? dflt\<close>\<close>

definition get_or :: "params \<Rightarrow> string \<Rightarrow> string \<Rightarrow> string" where
  "get_or sp name dflt = (case sp_get sp name of None \<Rightarrow> dflt | Some v \<Rightarrow> v)"

definition parseUrlState :: "platform \<Rightarrow> params \<Rightarrow> state" where
  "parseUrlState pf sp =
     \<lparr> q = get_or sp ''q'' [],
       city = get_or sp ''city'' [],
       cuisine = get_or sp ''cuisine'' [],
       neighborhood = get_or sp ''hood'' [],
       tag = get_or sp ''tag'' [],
       minRating = stringToNumber pf (get_or sp ''minRating'' ''0''),
       price = stringToNumber pf (get_or sp ''price'' ''0''),
       wouldReturn = (sp_get sp ''return'' = Some ''1''),
       sortBy = get_or sp ''sort'' ''top'' \<rparr>"

text \<open>The parameters of the URL that \<open>writeUrlState\<close> installs.\<close>

definition writeUrlState :: "platform \<Rightarrow> state \<Rightarrow> params" where
  "writeUrlState pf st =
     (let sp = [];
          sp = (if q st \<noteq> [] then sp_set ''q'' (q st) sp else sp);
          sp = (if city st \<noteq> [] then sp_set ''city'' (city st) sp else sp);
          sp = (if cuisine st \<noteq> [] then sp_set ''cuisine'' (cuisine st) sp else sp);
          sp = (if neighborhood st \<noteq> [] then sp_set ''hood'' (neighborhood st) sp else sp);
          sp = (if tag st \<noteq> [] then sp_set ''tag'' (tag st) sp else sp);
          sp = (if num_gt (minRating st) (Fin 0)
                then sp_set ''minRating'' (toString pf (JNum (minRating st))) sp else sp);
          sp = (if num_gt (price st) (Fin 0)
                then sp_set ''price'' (toString pf (JNum (price st))) sp else sp);
          sp = (if wouldReturn st then sp_set ''return'' ''1'' sp else sp);
          sp = (if sortBy st \<noteq> [] \<and> sortBy st \<noteq> ''top'' then sp_set ''sort'' (sortBy st) sp else sp)
      in sp)"

section \<open>Filter stage\<close>

text \<open>\<open>hay.includes(needle)\<close> on strings: the needle occurs as a contiguous run.\<close>

fun includes_str :: "string \<Rightarrow> string \<Rightarrow> bool" where
  "includes_str [] needle = (needle = [])"
| "includes_str (c # cs) needle = (prefix needle (c # cs) \<or> includes_str cs needle)"

text \<open>
  \<open>v.includes(s)\<close> for a string \<open>s\<close>: membership in an array, substring of a string, and
  a TypeError on a receiver that has no such method.
\<close>

definition includes_js :: "jsval \<Rightarrow> string \<Rightarrow> error + bool" where
  "includes_js v s =
     (case v of
        JArr xs \<Rightarrow> Inr (JStr s \<in> set xs)
      | JStr h \<Rightarrow> Inr (includes_str h s)
      | _ \<Rightarrow> Inl TypeError)"

text \<open>\<open>...v\<close> inside an array literal: only arrays and strings are iterable here.\<close>

definition iterate :: "jsval \<Rightarrow> error + jsval list" where
  "iterate v =
     (case v of
        JArr xs \<Rightarrow> Inr xs
      | JStr s \<Rightarrow> Inr (map (\<lambda>c. JStr [c]) s)
      | _ \<Rightarrow> Inl TypeError)"

definition hay :: "platform \<Rightarrow> place \<Rightarrow> error + string" where
  "hay pf p =
     ebind (iterate (js_or (getp p ''cuisine'') (JArr []))) (\<lambda>cs.
     ebind (iterate (js_or (getp p ''tags'') (JArr []))) (\<lambda>ts.
       Inr (toLowerCase pf (join '' '' (map (toString pf) (filter truthy
         ([getp p ''name'', getp p ''address'', getp p ''city'', getp p ''neighborhood'']
            @ cs @ ts @ [getp p ''notes''])))))))"

text \<open>\<open>typeof p.rating === "number" ? p.rating : 0\<close>\<close>

definition rating_or_zero :: "jsval \<Rightarrow> jsnum" where
  "rating_or_zero v = (case v of JNum n \<Rightarrow> n | _ \<Rightarrow> Fin 0)"

text \<open>
  The two copies of the filter differ in the price test only:
  \<open>Number(p.price || 0) !== Number(price)\<close> in the newer file and
  \<open>(p.price || 0) !== price\<close> under \<open>src/\<close>.
\<close>

definition price_differs :: "platform \<Rightarrow> state \<Rightarrow> place \<Rightarrow> bool" where
  "price_differs pf st p =
     (\<not> num_strict_eq (toNumber pf (js_or (getp p ''price'') (JNum (Fin 0)))) (price st))"

definition price_differs_src :: "platform \<Rightarrow> state \<Rightarrow> place \<Rightarrow> bool" where
  "price_differs_src pf st p =
     (case js_or (getp p ''price'') (JNum (Fin 0)) of
        JNum n \<Rightarrow> \<not> num_strict_eq n (price st)
      | _ \<Rightarrow> True)"

text \<open>The callback of \<open>places.filter\<close>, with its early returns in the order of the source.\<close>

definition filter_cb ::
  "(platform \<Rightarrow> state \<Rightarrow> place \<Rightarrow> bool) \<Rightarrow> platform \<Rightarrow> state \<Rightarrow> string \<Rightarrow> place \<Rightarrow> error + bool"
where
  "filter_cb pdiff pf st qq p =
     (if city st \<noteq> [] \<and> js_or (getp p ''city'') (JStr []) \<noteq> JStr (city st) then Inr False
      else if neighborhood st \<noteq> [] \<and> js_or (getp p ''neighborhood'') (JStr []) \<noteq> JStr (neighborhood st)
        then Inr False
      else ebind (if cuisine st \<noteq> []
                  then includes_js (js_or (getp p ''cuisine'') (JArr [])) (cuisine st)
                  else Inr True) (\<lambda>has_cuisine.
        if \<not> has_cuisine then Inr False
        else ebind (if tag st \<noteq> []
                    then includes_js (js_or (getp p ''tags'') (JArr [])) (tag st)
                    else Inr True) (\<lambda>has_tag.
          if \<not> has_tag then Inr False
          else if num_gt (price st) (Fin 0) \<and> pdiff pf st p then Inr False
          else if wouldReturn st \<and> getp p ''wouldReturn'' \<noteq> JBool True then Inr False
          else if num_gt (minRating st) (Fin 0)
                  \<and> num_lt (rating_or_zero (getp p ''rating'')) (minRating st) then Inr False
          else if qq = [] then Inr True
          else ebind (hay pf p) (\<lambda>h. Inr (includes_str h qq)))))"

fun filter_e :: "('a \<Rightarrow> error + bool) \<Rightarrow> 'a list \<Rightarrow> error + 'a list" where
  "filter_e f [] = Inr []"
| "filter_e f (x # xs) =
     ebind (f x) (\<lambda>keep. ebind (filter_e f xs) (\<lambda>ys. Inr (if keep then x # ys else ys)))"

definition filtered :: "platform \<Rightarrow> place list \<Rightarrow> state \<Rightarrow> error + place list" where
  "filtered pf ps st =
     filter_e (filter_cb price_differs pf st (toLowerCase pf (trim pf (q st)))) ps"

definition filtered_src :: "platform \<Rightarrow> place list \<Rightarrow> state \<Rightarrow> error + place list" where
  "filtered_src pf ps st =
     filter_e (filter_cb price_differs_src pf st (toLowerCase pf (trim pf (q st)))) ps"

section \<open>Sort stage\<close>

record location =
  lat :: real
  lon :: real

definition toRad :: "real \<Rightarrow> real" where
  "toRad d = d * pi / 180"

text \<open>
  \<open>haversineMiles\<close>, computed in exact real arithmetic. Its arguments may be NaN (a
  coordinate that did not convert to a number), and \<open>Math.sqrt\<close> and \<open>Math.asin\<close> answer
  NaN outside their domains.
\<close>

definition haversineMiles :: "jsnum \<Rightarrow> jsnum \<Rightarrow> jsnum \<Rightarrow> jsnum \<Rightarrow> jsnum" where
  "haversineMiles lat1 lon1 lat2 lon2 =
     (case (lat1, lon1, lat2, lon2) of
        (Fin la1, Fin lo1, Fin la2, Fin lo2) \<Rightarrow>
          (let dLat = toRad (la2 - la1);
               dLon = toRad (lo2 - lo1);
               a = (sin (dLat / 2))\<^sup>2 + cos (toRad la1) * cos (toRad la2) * (sin (dLon / 2))\<^sup>2
           in if 0 \<le> a \<and> a \<le> 1 then Fin (2 * 3958.8 * arcsin (sqrt a)) else NaN)
      | _ \<Rightarrow> NaN)"

text \<open>
  \<open>Array.prototype.sort\<close> is the engine's. The model is V8's, for an array of fewer
  than 64 elements, which V8 sorts as one run: it finds the run the array starts with
  (\<open>CountAndMakeRun\<close>: ascending while the comparator, called with the later element first,
  is not negative, or strictly descending and then reversed), and puts each remaining
  element into the sorted front by binary search (\<open>BinaryInsertionSort\<close>). A comparator
  result of NaN counts as 0. Longer arrays, which V8 cuts into several runs and merges,
  are not modelled.
\<close>

definition is_neg :: "jsnum \<Rightarrow> bool" where
  "is_neg c = num_lt c (Fin 0)"

text \<open>How many elements after the second one continue the run.\<close>

fun run_length :: "('a \<Rightarrow> 'a \<Rightarrow> error + jsnum) \<Rightarrow> bool \<Rightarrow> 'a \<Rightarrow> 'a list \<Rightarrow> error + nat" where
  "run_length cmp isDescending previous [] = Inr 0"
| "run_length cmp isDescending previous (current # rest) =
     (case cmp current previous of
        Inl e \<Rightarrow> Inl e
      | Inr order \<Rightarrow>
          if (if isDescending then \<not> is_neg order else is_neg order) then Inr 0
          else (case run_length cmp isDescending current rest of
                  Inl e \<Rightarrow> Inl e
                | Inr n \<Rightarrow> Inr (Suc n)))"

text \<open>The binary search of \<open>BinaryInsertionSort\<close>: where the pivot goes in the sorted front.\<close>

function binary_search ::
  "('a \<Rightarrow> 'a \<Rightarrow> error + jsnum) \<Rightarrow> 'a \<Rightarrow> 'a list \<Rightarrow> nat \<Rightarrow> nat \<Rightarrow> error + nat" where
  "binary_search cmp pivot arr left right =
     (if left < right then
        (case cmp pivot (arr ! (left + (right - left) div 2)) of
           Inl e \<Rightarrow> Inl e
         | Inr order \<Rightarrow>
             if is_neg order then binary_search cmp pivot arr left (left + (right - left) div 2)
             else binary_search cmp pivot arr (left + (right - left) div 2 + 1) right)
      else Inr left)"
  by pat_completeness auto
termination
  by (relation "measure (\<lambda>(cmp, pivot, arr, left, right). right - left)") auto

declare binary_search.simps [simp del]

fun binary_insertion :: "('a \<Rightarrow> 'a \<Rightarrow> error + jsnum) \<Rightarrow> 'a list \<Rightarrow> 'a list \<Rightarrow> error + 'a list" where
  "binary_insertion cmp front [] = Inr front"
| "binary_insertion cmp front (pivot # rest) =
     (case binary_search cmp pivot front 0 (length front) of
        Inl e \<Rightarrow> Inl e
      | Inr left \<Rightarrow> binary_insertion cmp (take left front @ pivot # drop left front) rest)"

definition sort_js :: "('a \<Rightarrow> 'a \<Rightarrow> error + jsnum) \<Rightarrow> 'a list \<Rightarrow> error + 'a list" where
  "sort_js cmp arr =
     (if 64 \<le> length arr then Inl OutOfModel
      else case arr of
        [] \<Rightarrow> Inr []
      | [x] \<Rightarrow> Inr [x]
      | x0 # x1 # rest \<Rightarrow>
          ebind (cmp x1 x0) (\<lambda>order.
          ebind (run_length cmp (is_neg order) x1 rest) (\<lambda>n.
            binary_insertion cmp
              (if is_neg order then rev (take (n + 2) arr) else take (n + 2) arr)
              (drop (n + 2) arr))))"

text \<open>
  \<open>(a[k] || "").localeCompare(b[k] || "")\<close>: a receiver that is not a string has no
  such method; the argument is converted to a string.
\<close>

definition locale_cmp :: "platform \<Rightarrow> string \<Rightarrow> place \<Rightarrow> place \<Rightarrow> error + jsnum" where
  "locale_cmp pf k a b =
     (case js_or (getp a k) (JStr []) of
        JStr s \<Rightarrow> Inr (Fin (real_of_int (localeCompare pf s (toString pf (js_or (getp b k) (JStr []))))))
      | _ \<Rightarrow> Inl TypeError)"

definition name_cmp :: "platform \<Rightarrow> place \<Rightarrow> place \<Rightarrow> error + jsnum" where
  "name_cmp pf a b = locale_cmp pf ''name'' a b"

definition recent_cmp :: "platform \<Rightarrow> place \<Rightarrow> place \<Rightarrow> error + jsnum" where
  "recent_cmp pf a b = locale_cmp pf ''visitedAt'' b a"

definition has_coords :: "platform \<Rightarrow> place \<Rightarrow> bool" where
  "has_coords pf p = (isFinite (toNumber pf (getp p ''lat'')) \<and> isFinite (toNumber pf (getp p ''lon'')))"

definition distance :: "platform \<Rightarrow> location \<Rightarrow> place \<Rightarrow> jsnum" where
  "distance pf myLoc p =
     haversineMiles (Fin (lat myLoc)) (Fin (lon myLoc))
       (toNumber pf (getp p ''lat'')) (toNumber pf (getp p ''lon''))"

definition nearest_cmp :: "platform \<Rightarrow> location \<Rightarrow> place \<Rightarrow> place \<Rightarrow> error + jsnum" where
  "nearest_cmp pf myLoc a b =
     (if \<not> has_coords pf a then Inr (Fin 1)
      else if \<not> has_coords pf b then Inr (Fin (- 1))
      else Inr (num_sub (distance pf myLoc a) (distance pf myLoc b)))"

text \<open>The copy under \<open>src/\<close> subtracts the two distances without looking at the coordinates.\<close>

definition nearest_cmp_src :: "platform \<Rightarrow> location \<Rightarrow> place \<Rightarrow> place \<Rightarrow> error + jsnum" where
  "nearest_cmp_src pf myLoc a b = Inr (num_sub (distance pf myLoc a) (distance pf myLoc b))"

text \<open>\<open>Number(p.rating) || -1\<close>\<close>

definition top_key :: "platform \<Rightarrow> place \<Rightarrow> jsnum" where
  "top_key pf p =
     (let n = toNumber pf (getp p ''rating'') in if truthy (JNum n) then n else Fin (- 1))"

definition top_cmp :: "platform \<Rightarrow> place \<Rightarrow> place \<Rightarrow> error + jsnum" where
  "top_cmp pf a b = Inr (num_sub (top_key pf b) (top_key pf a))"

text \<open>\<open>p.rating || -1\<close>, converted to a number by the subtraction.\<close>

definition top_key_src :: "platform \<Rightarrow> place \<Rightarrow> jsnum" where
  "top_key_src pf p = toNumber pf (js_or (getp p ''rating'') (JNum (Fin (- 1))))"

definition top_cmp_src :: "platform \<Rightarrow> place \<Rightarrow> place \<Rightarrow> error + jsnum" where
  "top_cmp_src pf a b = Inr (num_sub (top_key_src pf b) (top_key_src pf a))"

definition sorted_places ::
  "platform \<Rightarrow> place list \<Rightarrow> string \<Rightarrow> location option \<Rightarrow> error + place list" where
  "sorted_places pf arr srt myLoc =
     (if srt = ''name'' then sort_js (name_cmp pf) arr
      else if srt = ''recent'' then sort_js (recent_cmp pf) arr
      else if srt = ''nearest'' then
        (case myLoc of None \<Rightarrow> Inr arr | Some l \<Rightarrow> sort_js (nearest_cmp pf l) arr)
      else sort_js (top_cmp pf) arr)"

definition sorted_places_src ::
  "platform \<Rightarrow> place list \<Rightarrow> string \<Rightarrow> location option \<Rightarrow> error + place list" where
  "sorted_places_src pf arr srt myLoc =
     (if srt = ''name'' then sort_js (name_cmp pf) arr
      else if srt = ''recent'' then sort_js (recent_cmp pf) arr
      else if srt = ''nearest'' then
        (case myLoc of None \<Rightarrow> Inr arr | Some l \<Rightarrow> sort_js (nearest_cmp_src pf l) arr)
      else sort_js (top_cmp_src pf) arr)"

text \<open>
  A sample engine for evaluating examples: its conversions are those of JavaScript on
  decimal integers, its \<open>trim\<close> and \<open>toLowerCase\<close> those of JavaScript on ASCII text,
  which is all the examples use, and its collation is the code-unit order.
\<close>

definition read_digit :: "char \<Rightarrow> nat option" where
  "read_digit c = (let n = of_char c :: nat in if 48 \<le> n \<and> n \<le> 57 then Some (n - 48) else None)"

fun read_nat :: "nat \<Rightarrow> string \<Rightarrow> nat option" where
  "read_nat acc [] = Some acc"
| "read_nat acc (c # cs) =
     (case read_digit c of None \<Rightarrow> None | Some d \<Rightarrow> read_nat (10 * acc + d) cs)"

definition read_int :: "string \<Rightarrow> jsnum" where
  "read_int s =
     (case s of
        [] \<Rightarrow> Fin 0
      | c # cs \<Rightarrow>
          if c = CHR ''-'' \<and> cs \<noteq> []
          then (case read_nat 0 cs of None \<Rightarrow> NaN | Some n \<Rightarrow> Fin (- real n))
          else (case read_nat 0 s of None \<Rightarrow> NaN | Some n \<Rightarrow> Fin (real n)))"

definition show_int :: "real \<Rightarrow> string" where
  "show_int r = (if r < 0 then CHR ''-'' # show_nat (nat \<lfloor>- r\<rfloor>) else show_nat (nat \<lfloor>r\<rfloor>))"

fun code_unit_cmp :: "string \<Rightarrow> string \<Rightarrow> int" where
  "code_unit_cmp [] [] = 0"
| "code_unit_cmp [] (d # ds) = - 1"
| "code_unit_cmp (c # cs) [] = 1"
| "code_unit_cmp (c # cs) (d # ds) =
     (if (of_char c :: nat) < of_char d then - 1
      else if (of_char d :: nat) < of_char c then 1
      else code_unit_cmp cs ds)"

definition is_space :: "char \<Rightarrow> bool" where
  "is_space c = (of_char c \<in> {9, 10, 11, 12, 13, 32 :: nat})"

definition ascii_trim :: "string \<Rightarrow> string" where
  "ascii_trim s = rev (dropWhile is_space (rev (dropWhile is_space s)))"

definition lower_char :: "char \<Rightarrow> char" where
  "lower_char c = (let n = of_char c :: nat in if 65 \<le> n \<and> n \<le> 90 then char_of (n + 32) else c)"

definition ascii_lower :: "string \<Rightarrow> string" where
  "ascii_lower s = map lower_char s"

definition sample_engine :: platform where
  "sample_engine =
     \<lparr> numToString = show_int, stringToNumber = read_int, localeCompare = code_unit_cmp,
       trim = ascii_trim, toLowerCase = ascii_lower \<rparr>"

section \<open>Example data\<close>

text \<open>The two places of the scenario in the specification, and the state with no filter set.\<close>

definition ramen_house :: place where
  "ramen_house =
     [(''id'', JStr ''a''), (''name'', JStr ''Ramen House''), (''rating'', JNum (Fin 4.5)),
      (''price'', JNum (Fin 2)), (''city'', JStr ''Seattle'')]"

definition taco_stand :: place where
  "taco_stand =
     [(''id'', JStr ''b''), (''name'', JStr ''Taco Stand''), (''rating'', JNum (Fin 3)),
      (''price'', JNum (Fin 1)), (''city'', JStr ''Bellevue'')]"

definition no_filters :: state where
  "no_filters =
     \<lparr> q = [], city = [], cuisine = [], neighborhood = [], tag = [], minRating = Fin 0,
       price = Fin 0, wouldReturn = False, sortBy = ''top'' \<rparr>"

text \<open>A place at a latitude on the meridian 122 degrees west, and a place without coordinates.\<close>

definition spot :: "string \<Rightarrow> real \<Rightarrow> place" where
  "spot i la = [(''id'', JStr i), (''lat'', JNum (Fin la)), (''lon'', JNum (Fin (- 122)))]"

definition no_coords :: "string \<Rightarrow> place" where
  "no_coords i = [(''id'', JStr i)]"

definition home :: location where
  "home = \<lparr> lat = 47, lon = - 122 \<rparr>"

text \<open>What \<open>haversineMiles\<close> gives for one degree of latitude along a meridian.\<close>

definition one_degree :: real where
  "one_degree = 2 * 3958.8 * (toRad 1 / 2)"

section \<open>Notions of the specification\<close>

text \<open>The fields an edit patch is meant to carry.\<close>

definition mutable_fields :: "string set" where
  "mutable_fields = {''rating'', ''price'', ''wouldReturn'', ''notes'', ''photo''}"

text \<open>
  The predicates of the filter stage in the words of the specification, one per
  constraint, each stated on its own: a text constraint binds unless it is empty, a
  numeric one unless it is 0, the would-return flag when it is set.
\<close>

definition seq_of :: "jsval \<Rightarrow> jsval list" where
  "seq_of v = (case v of JArr xs \<Rightarrow> xs | _ \<Rightarrow> [])"

definition city_ok :: "state \<Rightarrow> place \<Rightarrow> bool" where
  "city_ok st p = (city st = [] \<or> getp p ''city'' = JStr (city st))"

definition neighborhood_ok :: "state \<Rightarrow> place \<Rightarrow> bool" where
  "neighborhood_ok st p = (neighborhood st = [] \<or> getp p ''neighborhood'' = JStr (neighborhood st))"

definition cuisine_ok :: "state \<Rightarrow> place \<Rightarrow> bool" where
  "cuisine_ok st p = (cuisine st = [] \<or> JStr (cuisine st) \<in> set (seq_of (getp p ''cuisine'')))"

definition tag_ok :: "state \<Rightarrow> place \<Rightarrow> bool" where
  "tag_ok st p = (tag st = [] \<or> JStr (tag st) \<in> set (seq_of (getp p ''tags'')))"

text \<open>
  The price 0 means unconstrained; otherwise the price of the place must be that number
  (an absent price fails, and NaN equals nothing).
\<close>

definition is_price :: "jsval \<Rightarrow> jsnum \<Rightarrow> bool" where
  "is_price v n = (case v of JNum a \<Rightarrow> num_strict_eq a n | _ \<Rightarrow> False)"

definition price_ok :: "state \<Rightarrow> place \<Rightarrow> bool" where
  "price_ok st p = (price st = Fin 0 \<or> is_price (getp p ''price'') (price st))"

definition wouldReturn_ok :: "state \<Rightarrow> place \<Rightarrow> bool" where
  "wouldReturn_ok st p = (if wouldReturn st then getp p ''wouldReturn'' = JBool True else True)"

definition num_ge :: "jsnum \<Rightarrow> jsnum \<Rightarrow> bool" where
  "num_ge a b = (case (a, b) of (Fin x, Fin y) \<Rightarrow> x \<ge> y | _ \<Rightarrow> False)"

text \<open>
  The minimum rating 0 means unconstrained; otherwise the rating of the place, 0 when it
  has none, must be at least the threshold.
\<close>

definition rating_of :: "place \<Rightarrow> jsnum" where
  "rating_of p = (case getp p ''rating'' of JNum n \<Rightarrow> n | _ \<Rightarrow> Fin 0)"

definition minRating_ok :: "state \<Rightarrow> place \<Rightarrow> bool" where
  "minRating_ok st p = (minRating st = Fin 0 \<or> num_ge (rating_of p) (minRating st))"

text \<open>
  The text that is searched: the name, address, city and neighborhood, every cuisine and
  tag label, and the notes, each left out when missing or empty, joined by single blanks
  and folded to lower case.
\<close>

definition words_of :: "jsval \<Rightarrow> string list" where
  "words_of v = (case v of JStr s \<Rightarrow> (if s = [] then [] else [s]) | _ \<Rightarrow> [])"

definition search_text :: "platform \<Rightarrow> place \<Rightarrow> string" where
  "search_text pf p =
     toLowerCase pf (join '' ''
       (words_of (getp p ''name'') @ words_of (getp p ''address'') @ words_of (getp p ''city'')
        @ words_of (getp p ''neighborhood'')
        @ concat (map words_of (seq_of (getp p ''cuisine'')))
        @ concat (map words_of (seq_of (getp p ''tags'')))
        @ words_of (getp p ''notes'')))"

definition text_ok :: "platform \<Rightarrow> state \<Rightarrow> place \<Rightarrow> bool" where
  "text_ok pf st p =
     (toLowerCase pf (trim pf (q st)) = []
      \<or> sublist (toLowerCase pf (trim pf (q st))) (search_text pf p))"

definition matches :: "platform \<Rightarrow> state \<Rightarrow> place \<Rightarrow> bool" where
  "matches pf st p =
     (city_ok st p \<and> neighborhood_ok st p \<and> cuisine_ok st p \<and> tag_ok st p \<and> price_ok st p
      \<and> wouldReturn_ok st p \<and> minRating_ok st p \<and> text_ok pf st p)"

text \<open>
  A place shaped as the data model has it: the text fields are strings or absent, cuisine
  and tags are sequences of strings or absent, price and rating are numbers or absent.
\<close>

definition absent :: "jsval \<Rightarrow> bool" where
  "absent v = (v = JUndefined \<or> v = JNull)"

definition is_string :: "jsval \<Rightarrow> bool" where
  "is_string v = (case v of JStr s \<Rightarrow> True | _ \<Rightarrow> False)"

definition is_labels :: "jsval \<Rightarrow> bool" where
  "is_labels v = (case v of JArr xs \<Rightarrow> list_all is_string xs | _ \<Rightarrow> False)"

definition is_number :: "jsval \<Rightarrow> bool" where
  "is_number v = (case v of JNum (Fin r) \<Rightarrow> True | _ \<Rightarrow> False)"

definition well_formed :: "place \<Rightarrow> bool" where
  "well_formed p =
     ((absent (getp p ''name'') \<or> is_string (getp p ''name''))
      \<and> (absent (getp p ''address'') \<or> is_string (getp p ''address''))
      \<and> (absent (getp p ''city'') \<or> is_string (getp p ''city''))
      \<and> (absent (getp p ''neighborhood'') \<or> is_string (getp p ''neighborhood''))
      \<and> (absent (getp p ''notes'') \<or> is_string (getp p ''notes''))
      \<and> (absent (getp p ''cuisine'') \<or> is_labels (getp p ''cuisine''))
      \<and> (absent (getp p ''tags'') \<or> is_labels (getp p ''tags''))
      \<and> (absent (getp p ''price'') \<or> is_number (getp p ''price''))
      \<and> (absent (getp p ''rating'') \<or> is_number (getp p ''rating'')))"

text \<open>A query whose two numeric constraints are numbers not below zero.\<close>

definition canonical :: "state \<Rightarrow> bool" where
  "canonical st =
     ((case price st of Fin c \<Rightarrow> 0 \<le> c | NaN \<Rightarrow> False)
      \<and> (case minRating st of Fin m \<Rightarrow> 0 \<le> m | NaN \<Rightarrow> False))"

datatype constraint =
  ByCity | ByNeighborhood | ByCuisine | ByTag | ByPrice | ByWouldReturn | ByMinRating | ByText

fun deactivate :: "constraint \<Rightarrow> state \<Rightarrow> state" where
  "deactivate ByCity st = st\<lparr>city := []\<rparr>"
| "deactivate ByNeighborhood st = st\<lparr>neighborhood := []\<rparr>"
| "deactivate ByCuisine st = st\<lparr>cuisine := []\<rparr>"
| "deactivate ByTag st = st\<lparr>tag := []\<rparr>"
| "deactivate ByPrice st = st\<lparr>price := Fin 0\<rparr>"
| "deactivate ByWouldReturn st = st\<lparr>wouldReturn := False\<rparr>"
| "deactivate ByMinRating st = st\<lparr>minRating := Fin 0\<rparr>"
| "deactivate ByText st = st\<lparr>q := []\<rparr>"


section \<open>Merge stage: properties\<close>

lemma getp_spread:
  "getp (spread p (JObj patch)) k = (case map_of patch k of Some v \<Rightarrow> v | None \<Rightarrow> getp p k)"
  by (cases "map_of patch k") (simp_all add: spread_def own_props_def getp_def map_add_def)

lemma merge_one_empty: "merge_one pf (JObj []) p = p"
  by (simp add: merge_one_def member_opt_def getp_def)

lemma places_src_eq:
  "edits \<noteq> JUndefined \<Longrightarrow> edits \<noteq> JNull \<Longrightarrow> places_src pf ps edits = Inr (places pf ps edits)"
  by (induction ps) (simp_all add: places_src_def places_def merge_one_src_def merge_one_def member_src_def ebind_def)

text \<open>
  C9. Merging with the empty overlay \<open>{}\<close> returns the base list itself: the same places
  in the same order, in both copies of the code.
\<close>

theorem merge_empty_overlay:
  "places pf basePlaces (JObj []) = basePlaces \<and> places_src pf basePlaces (JObj []) = Inr basePlaces"
proof -
  have "places pf basePlaces (JObj []) = basePlaces"
    by (induction basePlaces) (simp_all add: places_def merge_one_empty)
  then show ?thesis
    using places_src_eq [of "JObj []" pf basePlaces] by simp
qed

theorem merge_empty_overlay_witness:
  "places sample_engine [ramen_house, taco_stand] (JObj []) = [ramen_house, taco_stand]"
  using merge_empty_overlay [of sample_engine "[ramen_house, taco_stand]"] by simp

text \<open>
  C1. Patch precedence. Where the overlay holds a patch object for the identifier of the
  i-th base place, every property of the i-th merged place reads as the patch's value if
  the patch has that property (a null included) and as the base place's value otherwise.
  The copy under \<open>src/\<close> returns the same list.
\<close>

theorem patch_precedence:
  assumes "i < length basePlaces"
    and "member_opt pf edits (getp (basePlaces ! i) ''id'') = JObj patch"
  shows "getp (places pf basePlaces edits ! i) k =
           (case map_of patch k of Some v \<Rightarrow> v | None \<Rightarrow> getp (basePlaces ! i) k)
         \<and> places_src pf basePlaces edits = Inr (places pf basePlaces edits)"
proof -
  have "places pf basePlaces edits ! i = spread (basePlaces ! i) (JObj patch)"
    using assms by (simp add: places_def merge_one_def)
  moreover have "edits \<noteq> JUndefined" "edits \<noteq> JNull"
    using assms(2) by (auto simp: member_opt_def)
  ultimately show ?thesis
    by (simp add: getp_spread places_src_eq)
qed

theorem patch_precedence_witness:
  "(0::nat) < length [taco_stand]
   \<and> member_opt sample_engine (JObj [(''b'', JObj [(''rating'', JNum (Fin 4.8)), (''notes'', JNull)])])
        (getp ([taco_stand] ! 0) ''id'') = JObj [(''rating'', JNum (Fin 4.8)), (''notes'', JNull)]
   \<and> getp (places sample_engine [taco_stand]
        (JObj [(''b'', JObj [(''rating'', JNum (Fin 4.8)), (''notes'', JNull)])]) ! 0) ''notes'' = JNull
   \<and> getp (places sample_engine [taco_stand]
        (JObj [(''b'', JObj [(''rating'', JNum (Fin 4.8)), (''notes'', JNull)])]) ! 0) ''name''
        = JStr ''Taco Stand''"
proof -
  have h: "member_opt sample_engine (JObj [(''b'', JObj [(''rating'', JNum (Fin 4.8)), (''notes'', JNull)])])
        (getp ([taco_stand] ! 0) ''id'') = JObj [(''rating'', JNum (Fin 4.8)), (''notes'', JNull)]"
    by (simp add: member_opt_def getp_def taco_stand_def)
  show ?thesis
    using h patch_precedence [OF _ h, of "''notes''"] patch_precedence [OF _ h, of "''name''"]
    by (simp add: getp_def taco_stand_def)
qed

text \<open>
  C6, as stated: a patch never alters the identifier, the name or the coordinates. The
  merge copies every property the stored patch has, so a patch that carries a name
  replaces the name.
\<close>

theorem patch_frame_counterexample:
  "getp (places sample_engine [ramen_house] (JObj [(''a'', JObj [(''name'', JStr ''X'')])]) ! 0) ''name''
     \<noteq> getp ramen_house ''name''"
  by (simp add: places_def merge_one_def member_opt_def getp_def spread_def own_props_def
      ramen_house_def)

text \<open>
  C6, amended. Where the patch object for the identifier of the i-th base place has no
  property other than rating, price, wouldReturn, notes and photo, the merged place has the
  identifier, name, latitude and longitude of the base place, and so every property
  outside those five.
\<close>

theorem patch_frame:
  assumes "i < length basePlaces"
    and "member_opt pf edits (getp (basePlaces ! i) ''id'') = JObj patch"
    and "fst ` set patch \<subseteq> mutable_fields"
  shows "getp (places pf basePlaces edits ! i) ''id'' = getp (basePlaces ! i) ''id''
       \<and> getp (places pf basePlaces edits ! i) ''name'' = getp (basePlaces ! i) ''name''
       \<and> getp (places pf basePlaces edits ! i) ''lat'' = getp (basePlaces ! i) ''lat''
       \<and> getp (places pf basePlaces edits ! i) ''lon'' = getp (basePlaces ! i) ''lon''
       \<and> (\<forall>k. k \<notin> mutable_fields \<longrightarrow>
             getp (places pf basePlaces edits ! i) k = getp (basePlaces ! i) k)"
proof -
  have m: "places pf basePlaces edits ! i = spread (basePlaces ! i) (JObj patch)"
    using assms by (simp add: places_def merge_one_def)
  have frame: "getp (spread (basePlaces ! i) (JObj patch)) k = getp (basePlaces ! i) k"
    if "k \<notin> mutable_fields" for k
  proof -
    have "k \<notin> fst ` set patch" using that assms(3) by blast
    then have "map_of patch k = None" by (simp add: map_of_eq_None_iff)
    then show ?thesis by (simp add: getp_spread)
  qed
  have "''id'' \<notin> mutable_fields" "''name'' \<notin> mutable_fields"
       "''lat'' \<notin> mutable_fields" "''lon'' \<notin> mutable_fields"
    by (simp_all add: mutable_fields_def)
  then show ?thesis using frame m by simp
qed

theorem patch_frame_witness:
  "(0::nat) < length [taco_stand]
   \<and> member_opt sample_engine (JObj [(''b'', JObj [(''rating'', JNum (Fin 4.8))])])
        (getp ([taco_stand] ! 0) ''id'') = JObj [(''rating'', JNum (Fin 4.8))]
   \<and> fst ` set [(''rating'', JNum (Fin 4.8))] \<subseteq> mutable_fields
   \<and> getp (places sample_engine [taco_stand] (JObj [(''b'', JObj [(''rating'', JNum (Fin 4.8))])]) ! 0)
        ''name'' = JStr ''Taco Stand''"
proof -
  have h: "member_opt sample_engine (JObj [(''b'', JObj [(''rating'', JNum (Fin 4.8))])])
        (getp ([taco_stand] ! 0) ''id'') = JObj [(''rating'', JNum (Fin 4.8))]"
    by (simp add: member_opt_def getp_def taco_stand_def)
  have m: "fst ` set [(''rating'', JNum (Fin 4.8))] \<subseteq> mutable_fields"
    by (simp add: mutable_fields_def)
  show ?thesis
    using h m patch_frame [OF _ h m] by (simp add: getp_def taco_stand_def)
qed

section \<open>Edit overlay store: properties\<close>

lemma loadEdits_fails_open:
  "loadEdits parse Unavailable = JObj []"
  "loadEdits parse (Stored None) = JObj []"
  "loadEdits parse (Stored (Some [])) = JObj []"
  "parse raw = None \<Longrightarrow> loadEdits parse (Stored (Some raw)) = JObj []"
  "parse raw = Some v \<Longrightarrow> typeof v \<noteq> ''object'' \<or> v = JNull \<Longrightarrow>
     loadEdits parse (Stored (Some raw)) = JObj []"
  "parse raw = Some (JObj fs) \<Longrightarrow> raw \<noteq> [] \<Longrightarrow> loadEdits parse (Stored (Some raw)) = JObj fs"
  by (auto simp: loadEdits_def loadEdits_try_def)

text \<open>
  C8. \<open>loadEdits\<close> never raises, and answers the empty mapping when storage is
  unavailable, the item is absent or empty, the text does not parse, or it parses to a
  primitive or to null (the lemma above). Stored text that parses to an array passes the
  \<open>typeof\<close> test and is returned as it is: for the content \<open>[1]\<close> the result is the
  array, not the empty mapping.
\<close>

theorem loadEdits_array:
  "loadEdits (map_of [(''[1]'', JArr [JNum (Fin 1)])]) (Stored (Some ''[1]'')) = JArr [JNum (Fin 1)]"
  by (simp add: loadEdits_def loadEdits_try_def)

section \<open>URL encoding: properties\<close>

lemma map_of_filter_other:
  "k \<noteq> n \<Longrightarrow> map_of (filter (\<lambda>e. fst e \<noteq> n) sp) k = map_of sp k"
  by (induction sp) auto

lemma map_of_sp_set: "map_of (sp_set n v sp) = (map_of sp)(n \<mapsto> v)"
proof (induction sp)
  case Nil
  then show ?case by simp
next
  case (Cons e sp)
  obtain n' w where e: "e = (n', w)" by (cases e)
  show ?case
  proof (cases "n' = n")
    case True
    then show ?thesis
      by (auto simp: e fun_eq_iff map_of_filter_other)
  next
    case False
    then show ?thesis
      using Cons.IH by (auto simp: e fun_eq_iff)
  qed
qed

lemma sp_get_hit:
  "sp_get (if c then sp_set n v sp else sp) n = (if c then Some v else sp_get sp n)"
  by (simp add: sp_get_def map_of_sp_set)

lemma sp_get_skip:
  "k \<noteq> n \<Longrightarrow> sp_get (if c then sp_set n v sp else sp) k = sp_get sp k"
  by (simp add: sp_get_def map_of_sp_set)

lemma sp_get_empty: "sp_get [] k = None"
  by (simp add: sp_get_def)

lemmas sp_get_simps = sp_get_hit sp_get_skip sp_get_empty

lemma get_q: "get_or (writeUrlState pf st) ''q'' [] = q st"
  unfolding writeUrlState_def get_or_def Let_def
  by (simp add: sp_get_simps del: sp_set.simps split del: if_split cong: if_cong) simp?

lemma get_city: "get_or (writeUrlState pf st) ''city'' [] = city st"
  unfolding writeUrlState_def get_or_def Let_def
  by (simp add: sp_get_simps del: sp_set.simps split del: if_split cong: if_cong) simp?

lemma get_cuisine: "get_or (writeUrlState pf st) ''cuisine'' [] = cuisine st"
  unfolding writeUrlState_def get_or_def Let_def
  by (simp add: sp_get_simps del: sp_set.simps split del: if_split cong: if_cong) simp?

lemma get_hood: "get_or (writeUrlState pf st) ''hood'' [] = neighborhood st"
  unfolding writeUrlState_def get_or_def Let_def
  by (simp add: sp_get_simps del: sp_set.simps split del: if_split cong: if_cong) simp?

lemma get_tag: "get_or (writeUrlState pf st) ''tag'' [] = tag st"
  unfolding writeUrlState_def get_or_def Let_def
  by (simp add: sp_get_simps del: sp_set.simps split del: if_split cong: if_cong) simp?

lemma get_minRating:
  "get_or (writeUrlState pf st) ''minRating'' ''0''
     = (if num_gt (minRating st) (Fin 0) then toString pf (JNum (minRating st)) else ''0'')"
  unfolding writeUrlState_def get_or_def Let_def
  by (simp add: sp_get_simps del: sp_set.simps split del: if_split cong: if_cong) simp?

lemma get_price:
  "get_or (writeUrlState pf st) ''price'' ''0''
     = (if num_gt (price st) (Fin 0) then toString pf (JNum (price st)) else ''0'')"
  unfolding writeUrlState_def get_or_def Let_def
  by (simp add: sp_get_simps del: sp_set.simps split del: if_split cong: if_cong) simp?

lemma get_return: "(sp_get (writeUrlState pf st) ''return'' = Some ''1'') = wouldReturn st"
  unfolding writeUrlState_def Let_def
  by (simp add: sp_get_simps del: sp_set.simps split del: if_split cong: if_cong) simp?

lemma get_sort:
  "get_or (writeUrlState pf st) ''sort'' ''top''
     = (if sortBy st \<noteq> [] \<and> sortBy st \<noteq> ''top'' then sortBy st else ''top'')"
  unfolding writeUrlState_def get_or_def Let_def
  by (simp add: sp_get_simps del: sp_set.simps split del: if_split cong: if_cong) simp?

lemma show_nat_4: "show_nat 4 = ''4''"
  by code_simp

lemma show_int_4: "show_int 4 = ''4''"
  by (simp add: show_int_def show_nat_4)

lemma read_int_4: "read_int ''4'' = Fin 4"
  by (simp add: read_int_def read_digit_def)

lemma read_int_0: "read_int ''0'' = Fin 0"
  by (simp add: read_int_def read_digit_def)

text \<open>
  C5, as stated: decoding the encoding of any state with numeric minRating and price gives
  the state back. A minimum rating of \<open>-1\<close> is not written (only values above zero are),
  and decodes to 0.
\<close>

theorem url_round_trip_counterexample:
  "parseUrlState sample_engine (writeUrlState sample_engine
      \<lparr> q = [], city = [], cuisine = [], neighborhood = [], tag = [], minRating = Fin (- 1),
        price = Fin 0, wouldReturn = False, sortBy = ''top'' \<rparr>)
    \<noteq> \<lparr> q = [], city = [], cuisine = [], neighborhood = [], tag = [], minRating = Fin (- 1),
        price = Fin 0, wouldReturn = False, sortBy = ''top'' \<rparr>"
  by (simp add: parseUrlState_def get_minRating num_gt_def sample_engine_def read_int_0)

text \<open>
  C5, amended. For a state whose sort is one of top, recent, name and nearest and whose
  minRating and price are numbers not below zero, decoding the encoding gives the state
  back, and the empty parameter list decodes to the defaults. The engine is asked for
  what ECMAScript promises: \<open>Number("0")\<close> is 0 and \<open>Number(String(x))\<close> is \<open>x\<close> for the
  two numbers.
\<close>

theorem url_round_trip:
  assumes "sortBy st \<in> {''top'', ''recent'', ''name'', ''nearest''}"
    and "minRating st = Fin m" and "0 \<le> m"
    and "price st = Fin c" and "0 \<le> c"
    and "stringToNumber pf ''0'' = Fin 0"
    and "0 < m \<longrightarrow> stringToNumber pf (numToString pf m) = Fin m"
    and "0 < c \<longrightarrow> stringToNumber pf (numToString pf c) = Fin c"
  shows "parseUrlState pf (writeUrlState pf st) = st
       \<and> parseUrlState pf [] =
           \<lparr> q = [], city = [], cuisine = [], neighborhood = [], tag = [], minRating = Fin 0,
             price = Fin 0, wouldReturn = False, sortBy = ''top'' \<rparr>"
proof -
  have m: "stringToNumber pf (get_or (writeUrlState pf st) ''minRating'' ''0'') = minRating st"
    using assms by (cases "0 < m") (simp_all add: get_minRating num_gt_def)
  have c: "stringToNumber pf (get_or (writeUrlState pf st) ''price'' ''0'') = price st"
    using assms by (cases "0 < c") (simp_all add: get_price num_gt_def)
  have s: "get_or (writeUrlState pf st) ''sort'' ''top'' = sortBy st"
    using assms(1) by (auto simp: get_sort)
  have "parseUrlState pf (writeUrlState pf st) = st"
    unfolding parseUrlState_def get_q get_city get_cuisine get_hood get_tag m c s get_return
    by simp
  moreover have "parseUrlState pf [] =
           \<lparr> q = [], city = [], cuisine = [], neighborhood = [], tag = [], minRating = Fin 0,
             price = Fin 0, wouldReturn = False, sortBy = ''top'' \<rparr>"
    using assms(6) by (simp add: parseUrlState_def get_or_def sp_get_def)
  ultimately show ?thesis by simp
qed

theorem url_round_trip_witness:
  "no_filters\<lparr>city := ''Seattle'', minRating := Fin 4, sortBy := ''name''\<rparr>
     = \<lparr> q = [], city = ''Seattle'', cuisine = [], neighborhood = [], tag = [], minRating = Fin 4,
         price = Fin 0, wouldReturn = False, sortBy = ''name'' \<rparr>
   \<and> writeUrlState sample_engine (no_filters\<lparr>city := ''Seattle'', minRating := Fin 4, sortBy := ''name''\<rparr>)
     = [(''city'', ''Seattle''), (''minRating'', ''4''), (''sort'', ''name'')]
   \<and> parseUrlState sample_engine
       (writeUrlState sample_engine (no_filters\<lparr>city := ''Seattle'', minRating := Fin 4, sortBy := ''name''\<rparr>))
     = no_filters\<lparr>city := ''Seattle'', minRating := Fin 4, sortBy := ''name''\<rparr>"
  using url_round_trip [of "no_filters\<lparr>city := ''Seattle'', minRating := Fin 4, sortBy := ''name''\<rparr>"
      4 0 sample_engine]
  by (simp add: sample_engine_def show_int_4 read_int_4 read_int_0 no_filters_def
      writeUrlState_def num_gt_def)

section \<open>Filter stage: properties\<close>

lemma includes_str_sublist: "includes_str h n = sublist n h"
  by (induction h) (simp_all add: sublist_Cons_right)

lemma filter_e_pure:
  "(\<forall>x\<in>set xs. f x = Inr (P x)) \<Longrightarrow> filter_e f xs = Inr (filter P xs)"
  by (induction xs) (simp_all add: ebind_def)

lemma iterate_seq:
  "absent v \<or> is_labels v \<Longrightarrow> iterate (js_or v (JArr [])) = Inr (seq_of v)"
  by (auto simp: absent_def is_labels_def iterate_def js_or_def seq_of_def split: jsval.splits)

lemma includes_seq:
  "absent v \<or> is_labels v \<Longrightarrow> includes_js (js_or v (JArr [])) s = Inr (JStr s \<in> set (seq_of v))"
  by (auto simp: absent_def is_labels_def includes_js_def js_or_def seq_of_def split: jsval.splits)

lemma words_field:
  "absent v \<or> is_string v \<Longrightarrow> map (toString pf) (filter truthy [v]) = words_of v"
  by (auto simp: absent_def is_string_def words_of_def split: jsval.splits)

lemma words_labels:
  "list_all is_string xs \<Longrightarrow> map (toString pf) (filter truthy xs) = concat (map words_of xs)"
  by (induction xs) (auto simp: is_string_def words_of_def split: jsval.splits)

lemma words_seq:
  "absent v \<or> is_labels v \<Longrightarrow>
     map (toString pf) (filter truthy (seq_of v)) = concat (map words_of (seq_of v))"
  by (auto simp: absent_def is_labels_def seq_of_def words_labels split: jsval.splits)

lemma hay_pure:
  assumes "well_formed p"
  shows "hay pf p = Inr (search_text pf p)"
proof -
  have f: "map (toString pf) (filter truthy [getp p k]) = words_of (getp p k)"
    if "absent (getp p k) \<or> is_string (getp p k)" for k
    using that by (rule words_field)
  have "map (toString pf) (filter truthy
          ([getp p ''name'', getp p ''address'', getp p ''city'', getp p ''neighborhood'']
             @ seq_of (getp p ''cuisine'') @ seq_of (getp p ''tags'') @ [getp p ''notes'']))
        = map (toString pf) (filter truthy [getp p ''name''])
          @ map (toString pf) (filter truthy [getp p ''address''])
          @ map (toString pf) (filter truthy [getp p ''city''])
          @ map (toString pf) (filter truthy [getp p ''neighborhood''])
          @ map (toString pf) (filter truthy (seq_of (getp p ''cuisine'')))
          @ map (toString pf) (filter truthy (seq_of (getp p ''tags'')))
          @ map (toString pf) (filter truthy [getp p ''notes''])"
    by simp
  also have "\<dots> = words_of (getp p ''name'') @ words_of (getp p ''address'')
          @ words_of (getp p ''city'') @ words_of (getp p ''neighborhood'')
          @ concat (map words_of (seq_of (getp p ''cuisine'')))
          @ concat (map words_of (seq_of (getp p ''tags'')))
          @ words_of (getp p ''notes'')"
    using assms unfolding well_formed_def by (simp only: f words_seq)
  finally show ?thesis
    using assms by (simp add: hay_def search_text_def well_formed_def iterate_seq ebind_def)
qed

lemma str_or_eq: "c \<noteq> [] \<Longrightarrow> (js_or v (JStr []) = JStr c) = (v = JStr c)"
  by (cases v) (auto simp: js_or_def)

lemma absent_or_number_cases:
  assumes "absent v \<or> is_number v"
  obtains "v = JUndefined" | "v = JNull" | r where "v = JNum (Fin r)"
  using assms by (cases v) (auto simp: absent_def is_number_def split: jsnum.splits)

lemma price_differs_ok:
  assumes "absent (getp p ''price'') \<or> is_number (getp p ''price'')"
    and "price st = Fin c" and "0 \<le> c"
  shows "(num_gt (price st) (Fin 0) \<and> price_differs pf st p) = (\<not> price_ok st p)"
  using assms(1)
proof (cases rule: absent_or_number_cases)
  case 1
  then show ?thesis using assms(2,3)
    by (auto simp: price_differs_def price_ok_def is_price_def js_or_def num_strict_eq_def num_gt_def)
next
  case 2
  then show ?thesis using assms(2,3)
    by (auto simp: price_differs_def price_ok_def is_price_def js_or_def num_strict_eq_def num_gt_def)
next
  case (3 r)
  then show ?thesis using assms(2,3)
    by (auto simp: price_differs_def price_ok_def is_price_def js_or_def num_strict_eq_def num_gt_def)
qed

lemma price_differs_src_ok:
  assumes "absent (getp p ''price'') \<or> is_number (getp p ''price'')"
    and "price st = Fin c" and "0 \<le> c"
  shows "(num_gt (price st) (Fin 0) \<and> price_differs_src pf st p) = (\<not> price_ok st p)"
  using assms(1)
proof (cases rule: absent_or_number_cases)
  case 1
  then show ?thesis using assms(2,3)
    by (auto simp: price_differs_src_def price_ok_def is_price_def js_or_def num_strict_eq_def
        num_gt_def)
next
  case 2
  then show ?thesis using assms(2,3)
    by (auto simp: price_differs_src_def price_ok_def is_price_def js_or_def num_strict_eq_def
        num_gt_def)
next
  case (3 r)
  then show ?thesis using assms(2,3)
    by (auto simp: price_differs_src_def price_ok_def is_price_def js_or_def num_strict_eq_def
        num_gt_def)
qed

lemma rating_ok:
  assumes "absent (getp p ''rating'') \<or> is_number (getp p ''rating'')"
    and "minRating st = Fin m" and "0 \<le> m"
  shows "(num_gt (minRating st) (Fin 0)
            \<and> num_lt (rating_or_zero (getp p ''rating'')) (minRating st)) = (\<not> minRating_ok st p)"
  using assms(1)
proof (cases rule: absent_or_number_cases)
  case 1
  then show ?thesis using assms(2,3)
    by (auto simp: rating_or_zero_def rating_of_def minRating_ok_def num_lt_def num_ge_def num_gt_def)
next
  case 2
  then show ?thesis using assms(2,3)
    by (auto simp: rating_or_zero_def rating_of_def minRating_ok_def num_lt_def num_ge_def num_gt_def)
next
  case (3 r)
  then show ?thesis using assms(2,3)
    by (auto simp: rating_or_zero_def rating_of_def minRating_ok_def num_lt_def num_ge_def num_gt_def)
qed

lemma filter_cb_matches:
  assumes wf: "well_formed p"
    and g5: "(num_gt (price st) (Fin 0) \<and> pdiff pf st p) = (\<not> price_ok st p)"
    and mr: "minRating st = Fin m" "0 \<le> m"
  shows "filter_cb pdiff pf st (toLowerCase pf (trim pf (q st))) p = Inr (matches pf st p)"
proof -
  have g1: "(city st \<noteq> [] \<and> js_or (getp p ''city'') (JStr []) \<noteq> JStr (city st)) = (\<not> city_ok st p)"
    by (auto simp: city_ok_def str_or_eq)
  have g2: "(neighborhood st \<noteq> [] \<and> js_or (getp p ''neighborhood'') (JStr []) \<noteq> JStr (neighborhood st))
              = (\<not> neighborhood_ok st p)"
    by (auto simp: neighborhood_ok_def str_or_eq)
  have g3: "(if cuisine st \<noteq> [] then includes_js (js_or (getp p ''cuisine'') (JArr [])) (cuisine st)
             else Inr True) = Inr (cuisine_ok st p)"
    using wf by (simp add: well_formed_def includes_seq cuisine_ok_def)
  have g4: "(if tag st \<noteq> [] then includes_js (js_or (getp p ''tags'') (JArr [])) (tag st)
             else Inr True) = Inr (tag_ok st p)"
    using wf by (simp add: well_formed_def includes_seq tag_ok_def)
  have g6: "(wouldReturn st \<and> getp p ''wouldReturn'' \<noteq> JBool True) = (\<not> wouldReturn_ok st p)"
    by (simp add: wouldReturn_ok_def)
  have g7: "(num_gt (minRating st) (Fin 0)
               \<and> num_lt (rating_or_zero (getp p ''rating'')) (minRating st)) = (\<not> minRating_ok st p)"
    using wf mr by (intro rating_ok) (simp_all add: well_formed_def)
  have g8: "(if toLowerCase pf (trim pf (q st)) = [] then Inr True
             else ebind (hay pf p) (\<lambda>h. Inr (includes_str h (toLowerCase pf (trim pf (q st))))))
              = Inr (text_ok pf st p)"
    by (simp add: hay_pure [OF wf] ebind_def text_ok_def includes_str_sublist)
  show ?thesis
    unfolding filter_cb_def g1 g2 g3 g4 g5 g6 g7 g8
    by (simp add: ebind_def matches_def)
qed

lemma canonicalE:
  assumes "canonical st"
  obtains c m where "price st = Fin c" "0 \<le> c" "minRating st = Fin m" "0 \<le> m"
  using assms by (auto simp: canonical_def split: jsnum.splits)

lemma filtered_matches:
  assumes "\<forall>p\<in>set ps. well_formed p" and "canonical st"
  shows "filtered pf ps st = Inr (filter (matches pf st) ps)"
proof -
  from assms(2) obtain c m where n: "price st = Fin c" "0 \<le> c" "minRating st = Fin m" "0 \<le> m"
    by (rule canonicalE)
  show ?thesis
    unfolding filtered_def
  proof (rule filter_e_pure, rule ballI)
    fix p assume "p \<in> set ps"
    then have wf: "well_formed p" using assms(1) by simp
    then have "absent (getp p ''price'') \<or> is_number (getp p ''price'')"
      by (simp add: well_formed_def)
    then have "(num_gt (price st) (Fin 0) \<and> price_differs pf st p) = (\<not> price_ok st p)"
      using n(1,2) by (rule price_differs_ok)
    then show "filter_cb price_differs pf st (toLowerCase pf (trim pf (q st))) p
                 = Inr (matches pf st p)"
      using wf n(3,4) by (intro filter_cb_matches)
  qed
qed

lemma filtered_src_matches:
  assumes "\<forall>p\<in>set ps. well_formed p" and "canonical st"
  shows "filtered_src pf ps st = Inr (filter (matches pf st) ps)"
proof -
  from assms(2) obtain c m where n: "price st = Fin c" "0 \<le> c" "minRating st = Fin m" "0 \<le> m"
    by (rule canonicalE)
  show ?thesis
    unfolding filtered_src_def
  proof (rule filter_e_pure, rule ballI)
    fix p assume "p \<in> set ps"
    then have wf: "well_formed p" using assms(1) by simp
    then have "absent (getp p ''price'') \<or> is_number (getp p ''price'')"
      by (simp add: well_formed_def)
    then have "(num_gt (price st) (Fin 0) \<and> price_differs_src pf st p) = (\<not> price_ok st p)"
      using n(1,2) by (rule price_differs_src_ok)
    then show "filter_cb price_differs_src pf st (toLowerCase pf (trim pf (q st))) p
                 = Inr (matches pf st p)"
      using wf n(3,4) by (intro filter_cb_matches)
  qed
qed

lemma canonical_deactivate: "canonical st \<Longrightarrow> canonical (deactivate c st)"
  unfolding canonical_def by (cases c) simp_all

lemma city_ok_deactivate: "city_ok st p \<Longrightarrow> city_ok (deactivate c st) p"
  unfolding city_ok_def by (cases c) simp_all

lemma neighborhood_ok_deactivate: "neighborhood_ok st p \<Longrightarrow> neighborhood_ok (deactivate c st) p"
  unfolding neighborhood_ok_def by (cases c) simp_all

lemma cuisine_ok_deactivate: "cuisine_ok st p \<Longrightarrow> cuisine_ok (deactivate c st) p"
  unfolding cuisine_ok_def by (cases c) simp_all

lemma tag_ok_deactivate: "tag_ok st p \<Longrightarrow> tag_ok (deactivate c st) p"
  unfolding tag_ok_def by (cases c) simp_all

lemma price_ok_deactivate: "price_ok st p \<Longrightarrow> price_ok (deactivate c st) p"
  unfolding price_ok_def by (cases c) simp_all

lemma wouldReturn_ok_deactivate: "wouldReturn_ok st p \<Longrightarrow> wouldReturn_ok (deactivate c st) p"
  unfolding wouldReturn_ok_def by (cases c) simp_all

lemma minRating_ok_deactivate: "minRating_ok st p \<Longrightarrow> minRating_ok (deactivate c st) p"
  unfolding minRating_ok_def by (cases c) simp_all

lemma text_ok_deactivate:
  "toLowerCase pf (trim pf []) = [] \<Longrightarrow> text_ok pf st p \<Longrightarrow> text_ok pf (deactivate c st) p"
  unfolding text_ok_def by (cases c) simp_all

lemma matches_deactivate:
  assumes "toLowerCase pf (trim pf []) = []" and "matches pf st p"
  shows "matches pf (deactivate c st) p"
  using assms unfolding matches_def
  by (intro conjI city_ok_deactivate neighborhood_ok_deactivate cuisine_ok_deactivate
      tag_ok_deactivate price_ok_deactivate wouldReturn_ok_deactivate minRating_ok_deactivate
      text_ok_deactivate) simp_all

lemma subseq_filter_mono:
  "(\<And>x. P x \<Longrightarrow> Q x) \<Longrightarrow> subseq (filter P xs) (filter Q xs)"
  by (induction xs) auto

lemma well_formed_examples: "well_formed ramen_house" "well_formed taco_stand"
  by (simp_all add: well_formed_def absent_def is_number_def is_string_def getp_def
      ramen_house_def taco_stand_def)

lemma sample_trim_empty: "toLowerCase sample_engine (trim sample_engine []) = []"
  by (simp add: sample_engine_def ascii_trim_def ascii_lower_def)

lemma ascii_examples:
  "ascii_lower (ascii_trim '' TACO '') = ''taco''"
  "ascii_lower ''Ramen House Seattle'' = ''ramen house seattle''"
  "ascii_lower ''Taco Stand Bellevue'' = ''taco stand bellevue''"
  by code_simp+

lemma sample_query: "toLowerCase sample_engine (trim sample_engine '' TACO '') = ''taco''"
  by (simp add: sample_engine_def ascii_examples)

lemma sample_texts:
  "search_text sample_engine ramen_house = ''ramen house seattle''"
  "search_text sample_engine taco_stand = ''taco stand bellevue''"
  by (simp_all add: search_text_def words_of_def seq_of_def getp_def ramen_house_def taco_stand_def
      sample_engine_def ascii_examples)

lemma text_examples:
  "\<not> text_ok sample_engine (no_filters\<lparr>q := '' TACO ''\<rparr>) ramen_house"
  "text_ok sample_engine (no_filters\<lparr>q := '' TACO ''\<rparr>) taco_stand"
  by (simp_all add: text_ok_def sample_query sample_texts includes_str_sublist [symmetric])

lemma other_examples:
  "city_ok (no_filters\<lparr>q := s\<rparr>) p" "neighborhood_ok (no_filters\<lparr>q := s\<rparr>) p"
  "cuisine_ok (no_filters\<lparr>q := s\<rparr>) p" "tag_ok (no_filters\<lparr>q := s\<rparr>) p"
  "price_ok (no_filters\<lparr>q := s\<rparr>) p" "wouldReturn_ok (no_filters\<lparr>q := s\<rparr>) p"
  "minRating_ok (no_filters\<lparr>q := s\<rparr>) p"
  by (simp_all add: city_ok_def neighborhood_ok_def cuisine_ok_def tag_ok_def price_ok_def
      wouldReturn_ok_def minRating_ok_def no_filters_def)

lemma filter_examples:
  "filter (matches sample_engine (no_filters\<lparr>q := '' TACO ''\<rparr>)) [ramen_house, taco_stand]
     = [taco_stand]"
  "filter (matches sample_engine (deactivate ByText (no_filters\<lparr>q := '' TACO ''\<rparr>)))
     [ramen_house, taco_stand] = [ramen_house, taco_stand]"
  by (simp_all add: matches_def other_examples text_examples)
    (simp_all add: text_ok_def sample_trim_empty)

lemma rating_examples:
  "filter (matches sample_engine (no_filters\<lparr>minRating := Fin 4\<rparr>)) [ramen_house, taco_stand]
     = [ramen_house]"
  by (simp add: matches_def city_ok_def neighborhood_ok_def cuisine_ok_def tag_ok_def
      price_ok_def wouldReturn_ok_def minRating_ok_def text_ok_def sample_trim_empty num_ge_def
      rating_of_def getp_def no_filters_def ramen_house_def taco_stand_def)

lemma canonical_example: "canonical (no_filters\<lparr>q := s\<rparr>)"
  by (simp add: canonical_def no_filters_def)

lemma filter_cb_negative_price:
  "filter_cb price_differs sample_engine (no_filters\<lparr>price := Fin (- 1)\<rparr>) [] p = Inr True"
  by (simp add: filter_cb_def no_filters_def num_gt_def ebind_def)

lemma filter_raises:
  "filtered pf [[(''id'', JStr ''a''), (''cuisine'', JNum (Fin 5))]] (no_filters\<lparr>cuisine := ''Thai''\<rparr>)
     = Inl TypeError"
  by (simp add: filtered_def filter_cb_def no_filters_def getp_def js_or_def includes_js_def ebind_def)

text \<open>
  C2, as stated: for every query a place is returned exactly when it satisfies every
  predicate of the query. The specification leaves the price unconstrained at 0 only, and
  the code at every price that is not above zero: for the price \<open>-1\<close>, which
  \<open>parseUrlState\<close> reads from \<open>?price=-1\<close>, both places of the scenario are returned
  though neither has that price.
\<close>

theorem filter_conjunction_counterexample:
  "filtered sample_engine [ramen_house, taco_stand] (no_filters\<lparr>price := Fin (- 1)\<rparr>)
     = Inr [ramen_house, taco_stand]
   \<and> \<not> price_ok (no_filters\<lparr>price := Fin (- 1)\<rparr>) ramen_house
   \<and> \<not> matches sample_engine (no_filters\<lparr>price := Fin (- 1)\<rparr>) ramen_house"
proof -
  have q: "toLowerCase sample_engine (trim sample_engine (q (no_filters\<lparr>price := Fin (- 1)\<rparr>))) = []"
    by (simp add: no_filters_def sample_trim_empty)
  have "filtered sample_engine [ramen_house, taco_stand] (no_filters\<lparr>price := Fin (- 1)\<rparr>)
     = Inr [ramen_house, taco_stand]"
    unfolding filtered_def q by (simp add: filter_cb_negative_price ebind_def)
  moreover have "\<not> price_ok (no_filters\<lparr>price := Fin (- 1)\<rparr>) ramen_house"
    by (simp add: price_ok_def is_price_def num_strict_eq_def no_filters_def getp_def ramen_house_def)
  ultimately show ?thesis by (simp add: matches_def)
qed

text \<open>
  C2, amended. On places shaped as the data model has them, for a query whose price and
  minimum rating are numbers not below zero, both copies of the filter return exactly
  the places that satisfy each of the eight predicates on its own; and switching any one
  constraint off gives a result of which the first is a subsequence. The engine is asked
  for what ECMAScript promises: the empty string trimmed and folded is empty.
\<close>

theorem filter_conjunction:
  assumes "\<forall>p\<in>set ps. well_formed p" and "canonical st"
    and "toLowerCase pf (trim pf []) = []"
  shows "filtered pf ps st = Inr (filter (matches pf st) ps)
       \<and> filtered_src pf ps st = Inr (filter (matches pf st) ps)
       \<and> filtered pf ps (deactivate c st) = Inr (filter (matches pf (deactivate c st)) ps)
       \<and> filtered_src pf ps (deactivate c st) = Inr (filter (matches pf (deactivate c st)) ps)
       \<and> subseq (filter (matches pf st) ps) (filter (matches pf (deactivate c st)) ps)"
proof -
  have "subseq (filter (matches pf st) ps) (filter (matches pf (deactivate c st)) ps)"
    by (rule subseq_filter_mono) (rule matches_deactivate [OF assms(3)])
  then show ?thesis
    using assms(1,2) canonical_deactivate [OF assms(2), of c]
    by (simp add: filtered_matches filtered_src_matches)
qed

theorem filter_conjunction_witness:
  "well_formed ramen_house \<and> well_formed taco_stand
   \<and> canonical (no_filters\<lparr>q := '' TACO ''\<rparr>)
   \<and> toLowerCase sample_engine (trim sample_engine []) = []
   \<and> filtered sample_engine [ramen_house, taco_stand] (no_filters\<lparr>q := '' TACO ''\<rparr>)
       = Inr [taco_stand]
   \<and> filtered sample_engine [ramen_house, taco_stand]
       (deactivate ByText (no_filters\<lparr>q := '' TACO ''\<rparr>)) = Inr [ramen_house, taco_stand]"
proof -
  have w: "\<forall>p\<in>set [ramen_house, taco_stand]. well_formed p"
    by (simp add: well_formed_examples)
  note t = filter_conjunction [OF w canonical_example sample_trim_empty, of "'' TACO ''" ByText]
  have a: "filtered sample_engine [ramen_house, taco_stand] (no_filters\<lparr>q := '' TACO ''\<rparr>)
             = Inr [taco_stand]"
    using t unfolding filter_examples by blast
  have b: "filtered sample_engine [ramen_house, taco_stand]
             (deactivate ByText (no_filters\<lparr>q := '' TACO ''\<rparr>)) = Inr [ramen_house, taco_stand]"
    using t unfolding filter_examples by blast
  show ?thesis
    using well_formed_examples canonical_example [of "'' TACO ''"] sample_trim_empty a b by blast
qed

lemma filter_e_filter: "filter_e f xs = Inr out \<Longrightarrow> out = filter (\<lambda>x. f x = Inr True) xs"
proof (induction xs arbitrary: out)
  case Nil
  then show ?case by simp
next
  case (Cons x xs)
  then show ?case
    by (auto simp: ebind_def split: sum.splits if_splits)
qed

text \<open>
  C10. Whatever either copy of the filter returns is a subsequence of its input: its
  elements are elements of the input, none occurs more often than in the input, and they
  stand in the order of the input.
\<close>

theorem filter_subsequence:
  "(filtered pf ps st = Inr out \<longrightarrow> subseq out ps \<and> set out \<subseteq> set ps \<and> mset out \<subseteq># mset ps)
 \<and> (filtered_src pf ps st = Inr out \<longrightarrow> subseq out ps \<and> set out \<subseteq> set ps \<and> mset out \<subseteq># mset ps)"
proof -
  have "subseq out ps \<and> set out \<subseteq> set ps \<and> mset out \<subseteq># mset ps" if "filter_e f ps = Inr out" for f
  proof -
    have "out = filter (\<lambda>x. f x = Inr True) ps" using that by (rule filter_e_filter)
    then show ?thesis by auto
  qed
  then show ?thesis by (simp add: filtered_def filtered_src_def)
qed

theorem filter_subsequence_witness:
  "filtered sample_engine [ramen_house, taco_stand] (no_filters\<lparr>minRating := Fin 4\<rparr>) = Inr [ramen_house]
   \<and> filtered_src sample_engine [ramen_house, taco_stand] (no_filters\<lparr>minRating := Fin 4\<rparr>) = Inr [ramen_house]
   \<and> subseq [ramen_house] [ramen_house, taco_stand]"
proof -
  have w: "\<forall>p\<in>set [ramen_house, taco_stand]. well_formed p"
    by (simp add: well_formed_examples)
  have c: "canonical (no_filters\<lparr>minRating := Fin 4\<rparr>)"
    by (simp add: canonical_def no_filters_def)
  have f: "filtered sample_engine [ramen_house, taco_stand] (no_filters\<lparr>minRating := Fin 4\<rparr>)
             = Inr [ramen_house]"
    by (simp only: filtered_matches [OF w c] rating_examples)
  have g: "filtered_src sample_engine [ramen_house, taco_stand] (no_filters\<lparr>minRating := Fin 4\<rparr>)
             = Inr [ramen_house]"
    by (simp only: filtered_src_matches [OF w c] rating_examples)
  show ?thesis
    using f g filter_subsequence [of sample_engine "[ramen_house, taco_stand]"
        "no_filters\<lparr>minRating := Fin 4\<rparr>" "[ramen_house]"]
    by simp
qed

section \<open>Sort stage: properties\<close>

lemma num_sub_NaN: "num_sub a NaN = NaN" "num_sub NaN b = NaN"
  by (cases a, simp_all add: num_sub_def)

lemma haversineMiles_NaN: "haversineMiles a b NaN d = NaN"
  by (simp add: haversineMiles_def split: jsnum.splits)

lemma not_neg_NaN: "\<not> is_neg NaN"
  by (simp add: is_neg_def num_lt_def)

lemma is_neg_Fin: "is_neg (Fin r) = (r < 0)"
  by (simp add: is_neg_def num_lt_def)

lemma distance_no_coords: "distance pf l (no_coords i) = NaN"
  by (simp add: distance_def no_coords_def getp_def haversineMiles_NaN)

lemma distance_home: "distance pf home (spot i 47) = Fin 0"
  by (simp add: distance_def spot_def getp_def home_def haversineMiles_def toRad_def)

lemma distance_north: "distance pf home (spot i 48) = Fin one_degree"
proof -
  let ?t = "toRad 1 / 2"
  have t: "0 < ?t" "?t < pi" "- (pi / 2) \<le> ?t" "?t \<le> pi / 2"
    using pi_gt_zero by (simp_all add: toRad_def)
  have s: "0 < sin ?t" using t(1,2) by (rule sin_gt_zero)
  have a: "0 \<le> (sin ?t)\<^sup>2" "(sin ?t)\<^sup>2 \<le> 1"
    by (simp_all add: abs_square_le_1)
  have "sqrt ((sin ?t)\<^sup>2) = sin ?t" using s by simp
  then have "arcsin (sqrt ((sin ?t)\<^sup>2)) = ?t"
    using t(3,4) by (simp add: arcsin_sin)
  then have e: "arcsin \<bar>sin ?t\<bar> = ?t" by simp
  have z: "toRad 0 = 0" by (simp add: toRad_def)
  show ?thesis
    using a
    by (simp add: distance_def spot_def getp_def home_def haversineMiles_def Let_def z e
        one_degree_def)
qed

lemma one_degree_positive: "0 < one_degree"
  using pi_gt_zero by (simp add: one_degree_def toRad_def)

lemma num_sub_Fin: "num_sub (Fin x) (Fin y) = Fin (x - y)"
  by (simp add: num_sub_def)

lemma nearest_without_location:
  "sorted_places pf arr ''nearest'' None = Inr arr"
  "sorted_places_src pf arr ''nearest'' None = Inr arr"
  by (simp_all add: sorted_places_def sorted_places_src_def)

lemma cmp_src_examples:
  "nearest_cmp_src pf home (spot i 47) (spot j 47) = Inr (Fin 0)"
  "nearest_cmp_src pf home (spot i 47) (spot j 48) = Inr (Fin (- one_degree))"
  "nearest_cmp_src pf home (spot i 48) (spot j 47) = Inr (Fin one_degree)"
  "nearest_cmp_src pf home (no_coords i) p = Inr NaN"
  "nearest_cmp_src pf home p (no_coords i) = Inr NaN"
  by (simp_all add: nearest_cmp_src_def distance_home distance_north distance_no_coords num_sub_Fin
      num_sub_NaN)

lemma neg_examples:
  "is_neg (Fin 0) = False"
  "is_neg (Fin (- one_degree)) = True"
  "is_neg (Fin one_degree) = False"
  "is_neg NaN = False"
  using one_degree_positive by (simp_all add: is_neg_Fin not_neg_NaN)

lemma has_coords_examples: "has_coords pf (spot i la)" "\<not> has_coords pf (no_coords i)"
  by (simp_all add: has_coords_def isFinite_def getp_def spot_def no_coords_def)

lemma cmp_examples:
  "nearest_cmp pf home (spot i 47) (spot j 47) = Inr (Fin 0)"
  "nearest_cmp pf home (spot i 47) (spot j 48) = Inr (Fin (- one_degree))"
  "nearest_cmp pf home (spot i 48) (spot j 47) = Inr (Fin one_degree)"
  "nearest_cmp pf home (no_coords i) p = Inr (Fin 1)"
  "nearest_cmp pf home (spot i la) (no_coords j) = Inr (Fin (- 1))"
  by (simp_all add: nearest_cmp_def has_coords_examples distance_home distance_north num_sub_Fin)

lemma nearest_guarded_example:
  "sorted_places sample_engine
     [spot ''p0'' 47, spot ''p1'' 47, spot ''p2'' 48, spot ''p3'' 47, no_coords ''p4'',
      spot ''p5'' 47, spot ''p6'' 47]
     ''nearest'' (Some home)
   = Inr [spot ''p0'' 47, spot ''p1'' 47, spot ''p3'' 47, spot ''p5'' 47, spot ''p6'' 47,
      spot ''p2'' 48, no_coords ''p4'']"
proof -
  have n: "is_neg (Fin 1) = False" "is_neg (Fin (- 1)) = True"
    by (simp_all add: is_neg_Fin)
  show ?thesis
    by (simp add: sorted_places_def sort_js_def ebind_def cmp_examples neg_examples n
        binary_search.simps)
qed

lemma nearest_null_coords:
  "sorted_places pf
     [no_coords ''q'', [(''id'', JStr ''n''), (''lat'', JNull), (''lon'', JNull)]]
     ''nearest'' (Some home)
   = Inr [[(''id'', JStr ''n''), (''lat'', JNull), (''lon'', JNull)], no_coords ''q'']"
  by (simp add: sorted_places_def sort_js_def nearest_cmp_def has_coords_def isFinite_def getp_def
      no_coords_def ebind_def is_neg_Fin)

text \<open>
  C7. The top-rated comparator takes \<open>Number(rating) || -1\<close> (\<open>rating || -1\<close> under
  \<open>src/\<close>) as the key, so a rating of 0, being falsy, gets the key \<open>-1\<close> of an unrated
  place: an unrated place that comes first in the input stays in front of a place rated 0.
\<close>

theorem top_zero_rating:
  "sorted_places sample_engine
     [[(''id'', JStr ''u'')], [(''id'', JStr ''z''), (''rating'', JNum (Fin 0))]] ''top'' None
     = Inr [[(''id'', JStr ''u'')], [(''id'', JStr ''z''), (''rating'', JNum (Fin 0))]]
 \<and> sorted_places_src sample_engine
     [[(''id'', JStr ''u'')], [(''id'', JStr ''z''), (''rating'', JNum (Fin 0))]] ''top'' None
     = Inr [[(''id'', JStr ''u'')], [(''id'', JStr ''z''), (''rating'', JNum (Fin 0))]]"
  by (simp add: sorted_places_def sorted_places_src_def sort_js_def top_cmp_def top_cmp_src_def
      top_key_def top_key_src_def getp_def js_or_def ebind_def num_sub_def is_neg_def num_lt_def)

text \<open>
  C4. Without a location both copies return the input as it is. With a location, the
  comparator under \<open>src/\<close> has none of the coordinate checks of the newer file: a place
  without coordinates has the distance NaN, the comparator answers NaN for every pair it
  is in, and the place stays where it was, here in front of a place that has coordinates.
\<close>

theorem nearest_src_missing_coords:
  "sorted_places_src sample_engine
     [[(''id'', JStr ''i'')],
      [(''id'', JStr ''v''), (''lat'', JNum (Fin 47.6)), (''lon'', JNum (Fin (- 122.3)))]]
     ''nearest'' (Some \<lparr> lat = 47.6, lon = - 122.3 \<rparr>)
   = Inr [[(''id'', JStr ''i'')],
      [(''id'', JStr ''v''), (''lat'', JNum (Fin 47.6)), (''lon'', JNum (Fin (- 122.3)))]]"
  by (simp add: sorted_places_src_def sort_js_def nearest_cmp_src_def distance_def getp_def ebind_def
      haversineMiles_NaN num_sub_NaN not_neg_NaN)

text \<open>
  C3. The same comparator breaks the stability of the nearest sort under \<open>src/\<close>. Of
  seven places, \<open>p4\<close> has no coordinates, \<open>p2\<close> lies one degree north and the others at
  the user's location, so \<open>p5\<close> and \<open>p6\<close> have the same distance. The comparator answers
  NaN, taken as equal, for every pair with \<open>p4\<close> in it, the front the binary search works
  on is then not in order, and \<open>p6\<close> comes out in front of \<open>p5\<close>.
\<close>

theorem nearest_src_unstable:
  "distance sample_engine home (spot ''p5'' 47) = distance sample_engine home (spot ''p6'' 47)
   \<and> sorted_places_src sample_engine
       [spot ''p0'' 47, spot ''p1'' 47, spot ''p2'' 48, spot ''p3'' 47, no_coords ''p4'',
        spot ''p5'' 47, spot ''p6'' 47]
       ''nearest'' (Some home)
     = Inr [spot ''p0'' 47, spot ''p1'' 47, spot ''p3'' 47, spot ''p6'' 47, spot ''p2'' 48,
        no_coords ''p4'', spot ''p5'' 47]"
  by (simp add: sorted_places_src_def sort_js_def ebind_def cmp_src_examples neg_examples
      binary_search.simps distance_home)

end
